theory Spec2Isabelle
  imports Complex_Main
begin

section \<open>Scalars and vectors\<close>

text \<open>
  The physics package computes with \<^verbatim>\<open>float32\<close> scalars and \<^verbatim>\<open>mgl32.Vec3\<close> vectors.
  A scalar is modelled by the real number it denotes: comparisons, \<^verbatim>\<open>minf\<close>, \<^verbatim>\<open>maxf\<close>,
  \<^verbatim>\<open>signF\<close> and the control flow built on them are exactly those of the source, while
  infinities and NaN are outside the model. Box intersection, the position history and
  the engine's \<^verbatim>\<open>update\<close> are written with the arithmetic of the reals. In
  \<^verbatim>\<open>RigidBody.Move\<close> and \<^verbatim>\<open>MovementController.Move\<close>, where rounding, underflow and
  overflow decide tests and counts, every \<^verbatim>\<open>float32\<close> operation is taken from a record
  of primitives (\<open>F32\<close> below), so that what is proved of them holds for any rounding.
  The concrete inputs evaluated below use the primitives without rounding, one input
  about rounding itself apart; there every comparison that decides a branch holds by a
  margin far above the rounding of \<^verbatim>\<open>float32\<close>.

  \<^verbatim>\<open>mgl32.Vec3\<close> belongs to an external library; its accessors and the operations the
  package calls (\<^verbatim>\<open>Add\<close>, \<^verbatim>\<open>Sub\<close>, \<^verbatim>\<open>Mul\<close>, \<^verbatim>\<open>Len\<close>, \<^verbatim>\<open>Normalize\<close>) are written out
  component-wise as the library defines them: \<open>Add\<close>, \<open>Mul\<close> and \<open>Len\<close> with the
  arithmetic of the reals, \<open>Add32\<close>, \<open>Sub32\<close>, \<open>Mul32\<close> and \<open>Normalize32\<close> with the
  primitives.
\<close>

datatype Vec3 = Vec3 (X: real) (Y: real) (Z: real)

definition zeroVec :: Vec3 where
  "zeroVec = Vec3 0 0 0"



definition Len :: "Vec3 \<Rightarrow> real" where
  "Len a = sqrt (X a * X a + Y a * Y a + Z a * Z a)"

subsection \<open>The float32 primitives\<close>

text \<open>
  The arithmetic of \<^verbatim>\<open>float32\<close> as parameters: rounded sum, difference, product and
  quotient, the length \<^verbatim>\<open>Len\<close> of \<^verbatim>\<open>mgl32\<close> (which squares and adds in \<^verbatim>\<open>float32\<close>), the
  conversion of an \<^verbatim>\<open>int\<close> to \<^verbatim>\<open>float32\<close>, and the value that the conversion of an
  out-of-range \<^verbatim>\<open>float32\<close> to \<^verbatim>\<open>int\<close> returns, which Go leaves to the implementation.
  \<open>exactF32\<close> is the instance without rounding, with the out-of-range value of amd64.
\<close>

record F32 =
  fadd :: "real \<Rightarrow> real \<Rightarrow> real"
  fsub :: "real \<Rightarrow> real \<Rightarrow> real"
  fmul :: "real \<Rightarrow> real \<Rightarrow> real"
  fdiv :: "real \<Rightarrow> real \<Rightarrow> real"
  flen :: "Vec3 \<Rightarrow> real"
  fofint :: "int \<Rightarrow> real"
  fovf :: int

definition exactF32 :: F32 where
  "exactF32 =
     \<lparr>fadd = (\<lambda>a b. a + b), fsub = (\<lambda>a b. a - b), fmul = (\<lambda>a b. a * b),
      fdiv = (\<lambda>a b. a / b), flen = Len, fofint = real_of_int, fovf = - (2 ^ 63)\<rparr>"

definition Add32 :: "F32 \<Rightarrow> Vec3 \<Rightarrow> Vec3 \<Rightarrow> Vec3" where
  "Add32 F a b = Vec3 (fadd F (X a) (X b)) (fadd F (Y a) (Y b)) (fadd F (Z a) (Z b))"

definition Sub32 :: "F32 \<Rightarrow> Vec3 \<Rightarrow> Vec3 \<Rightarrow> Vec3" where
  "Sub32 F a b = Vec3 (fsub F (X a) (X b)) (fsub F (Y a) (Y b)) (fsub F (Z a) (Z b))"

definition Mul32 :: "F32 \<Rightarrow> Vec3 \<Rightarrow> real \<Rightarrow> Vec3" where
  "Mul32 F a c = Vec3 (fmul F (X a) c) (fmul F (Y a) c) (fmul F (Z a) c)"

text \<open>
  The constants 0.001 and 0.2 of \<^verbatim>\<open>Move\<close> are \<^verbatim>\<open>float32\<close> constants: the nearest
  \<^verbatim>\<open>float32\<close> values, \<open>8589935 / 2 ^ 33\<close> and \<open>13421773 / 2 ^ 26\<close>.
\<close>

definition f32_0_001 :: real where
  "f32_0_001 = 8589935 / 8589934592"

definition f32_0_2 :: real where
  "f32_0_2 = 13421773 / 67108864"

text \<open>
  The conversion \<^verbatim>\<open>int(x)\<close> of a \<^verbatim>\<open>float32\<close> truncates towards zero; when the result does
  not fit the 64-bit \<^verbatim>\<open>int\<close> it is the implementation's value \<open>ovf\<close>. \<open>wrap64\<close> is the
  wrap-around of 64-bit signed arithmetic.
\<close>

definition toInt :: "int \<Rightarrow> real \<Rightarrow> int" where
  "toInt ovf x =
     (let t = (if 0 \<le> x then \<lfloor>x\<rfloor> else \<lceil>x\<rceil>)
      in if - (2 ^ 63) \<le> t \<and> t < 2 ^ 63 then t else ovf)"

definition wrap64 :: "int \<Rightarrow> int" where
  "wrap64 i = (i + 2 ^ 63) mod 2 ^ 64 - 2 ^ 63"

section \<open>Axis-aligned boxes (box.go)\<close>

record Box =
  Min_box :: Vec3
  Max_box :: Vec3

definition NewBox :: "Vec3 \<Rightarrow> Vec3 \<Rightarrow> Box" where
  "NewBox mn mx = \<lparr>Min_box = mn, Max_box = mx\<rparr>"

definition minf :: "real \<Rightarrow> real \<Rightarrow> real" where
  "minf a b = (if a < b then a else b)"

definition maxf :: "real \<Rightarrow> real \<Rightarrow> real" where
  "maxf a b = (if a > b then a else b)"

definition signF :: "real \<Rightarrow> real" where
  "signF x = (if x < 0 then - 1 else 1)"

definition IntersectionXZ :: "Box \<Rightarrow> Box \<Rightarrow> bool \<times> Vec3" where
  "IntersectionXZ b other =
     (if X (Max_box b) < X (Min_box other) \<or> X (Min_box b) > X (Max_box other) \<or>
         Z (Max_box b) < Z (Min_box other) \<or> Z (Min_box b) > Z (Max_box other)
      then (False, zeroVec)
      else
        let dx1 = X (Max_box other) - X (Min_box b);
            dx2 = X (Max_box b) - X (Min_box other);
            dx = minf dx1 dx2;
            dz1 = Z (Max_box other) - Z (Min_box b);
            dz2 = Z (Max_box b) - Z (Min_box other);
            dz = minf dz1 dz2
        in if dx < dz then (True, Vec3 (dx * signF (dx1 - dx2)) 0 0)
           else (True, Vec3 0 0 (dz * signF (dz1 - dz2))))"

text \<open>
  \<^verbatim>\<open>IntersectionY\<close> is called by \<^verbatim>\<open>Move\<close> only, which compares its depth with 0.001; its
  two differences are \<^verbatim>\<open>float32\<close> differences.
\<close>

definition IntersectionY :: "F32 \<Rightarrow> Box \<Rightarrow> Box \<Rightarrow> bool \<times> real" where
  "IntersectionY F b other =
     (if X (Max_box b) < X (Min_box other) \<or> X (Min_box b) > X (Max_box other) \<or>
         Z (Max_box b) < Z (Min_box other) \<or> Z (Min_box b) > Z (Max_box other)
      then (False, 0)
      else if Y (Min_box b) > Y (Max_box other) \<or> Y (Max_box b) < Y (Min_box other)
      then (False, 0)
      else
        let dy1 = fsub F (Y (Max_box other)) (Y (Min_box b));
            dy2 = fsub F (Y (Max_box b)) (Y (Min_box other))
        in (True, minf dy1 dy2))"

text \<open>
  The three per-axis depths that \<^verbatim>\<open>Intersection\<close> computes in its locals \<^verbatim>\<open>dx\<close>,
  \<^verbatim>\<open>dy\<close>, \<^verbatim>\<open>dz\<close>, named so that statements can speak of the depth on an axis.
\<close>

definition depthX :: "Box \<Rightarrow> Box \<Rightarrow> real" where
  "depthX b other =
     minf (X (Max_box other) - X (Min_box b)) (X (Max_box b) - X (Min_box other))"

definition depthY :: "Box \<Rightarrow> Box \<Rightarrow> real" where
  "depthY b other =
     minf (Y (Max_box other) - Y (Min_box b)) (Y (Max_box b) - Y (Min_box other))"

definition depthZ :: "Box \<Rightarrow> Box \<Rightarrow> real" where
  "depthZ b other =
     minf (Z (Max_box other) - Z (Min_box b)) (Z (Max_box b) - Z (Min_box other))"

definition Intersection :: "Box \<Rightarrow> Box \<Rightarrow> bool \<times> Vec3" where
  "Intersection b other =
     (if X (Max_box b) < X (Min_box other) \<or> X (Min_box b) > X (Max_box other) \<or>
         Y (Max_box b) < Y (Min_box other) \<or> Y (Min_box b) > Y (Max_box other) \<or>
         Z (Max_box b) < Z (Min_box other) \<or> Z (Min_box b) > Z (Max_box other)
      then (False, zeroVec)
      else
        let dx1 = X (Max_box other) - X (Min_box b);
            dx2 = X (Max_box b) - X (Min_box other);
            dx = minf dx1 dx2;
            dy1 = Y (Max_box other) - Y (Min_box b);
            dy2 = Y (Max_box b) - Y (Min_box other);
            dy = minf dy1 dy2;
            dz1 = Z (Max_box other) - Z (Min_box b);
            dz2 = Z (Max_box b) - Z (Min_box other);
            dz = minf dz1 dz2
        in if dx < dy \<and> dx < dz then (True, Vec3 (dx * signF (dx1 - dx2)) 0 0)
           else if dy < dx \<and> dy < dz then (True, Vec3 0 (dy * signF (dy1 - dy2)) 0)
           else (True, Vec3 0 0 (dz * signF (dz1 - dz2))))"

text \<open>
  Strict separation on an axis: the maximum of one box lies strictly below the minimum
  of the other.
\<close>

definition separatedX :: "Box \<Rightarrow> Box \<Rightarrow> bool" where
  "separatedX a b = (X (Max_box a) < X (Min_box b) \<or> X (Max_box b) < X (Min_box a))"

definition separatedY :: "Box \<Rightarrow> Box \<Rightarrow> bool" where
  "separatedY a b = (Y (Max_box a) < Y (Min_box b) \<or> Y (Max_box b) < Y (Min_box a))"

definition separatedZ :: "Box \<Rightarrow> Box \<Rightarrow> bool" where
  "separatedZ a b = (Z (Max_box a) < Z (Min_box b) \<or> Z (Max_box b) < Z (Min_box a))"

definition separated :: "Box \<Rightarrow> Box \<Rightarrow> bool" where
  "separated a b = (separatedX a b \<or> separatedY a b \<or> separatedZ a b)"

section \<open>Rigid bodies\<close>

text \<open>
  \<^verbatim>\<open>RigidBody\<close> is a struct that its methods mutate through a pointer; each method is
  modelled as a function from the body to the updated body. \<^verbatim>\<open>Collider\<close> is a pointer to
  a box that is either nil or freshly allocated by \<^verbatim>\<open>UpdateCollider\<close>, hence an option.
  \<^verbatim>\<open>PositionHistoryLength\<close> is a Go \<^verbatim>\<open>int\<close>. The callback field \<^verbatim>\<open>OnPositionUpdated\<close> is
  read by \<^verbatim>\<open>Tick\<close> only and is left out of the record.
\<close>

record RigidBody =
  Collider :: "Box option"
  PositionHistory :: "Vec3 list"
  TripDistance :: real
  Position :: Vec3
  Velocity :: Vec3
  Force :: Vec3
  Mass :: real
  Width :: real
  Height :: real
  Flying :: bool
  Grounded :: bool
  JumpSpeed :: real
  Gravity :: real
  PenetrationEpsilonSmall :: real
  PenetrationEpsilonBig :: real
  AirMovementSuppression :: real
  FlyingSpeedMultipier :: real
  PositionHistoryLength :: int

definition DefaultJumpSpeed :: real where "DefaultJumpSpeed = 3"
definition DefaultGravity :: real where "DefaultGravity = 12"
definition DefaultPenetrationEpsilonSmall :: real where "DefaultPenetrationEpsilonSmall = 1 / 10"
definition DefaultPenetrationEpsilonBig :: real where "DefaultPenetrationEpsilonBig = 1"
definition DefaultAirMovementSuppression :: real where "DefaultAirMovementSuppression = 7 / 10"
definition DefaultFlyingSpeedMultipier :: real where "DefaultFlyingSpeedMultipier = 2"
definition DefaultPositionHistoryLength :: int where "DefaultPositionHistoryLength = 20"

definition NewRigidBody :: "Vec3 \<Rightarrow> real \<Rightarrow> real \<Rightarrow> real \<Rightarrow> RigidBody" where
  "NewRigidBody position mass width height =
     \<lparr>Collider = None,
      PositionHistory = [],
      TripDistance = 0,
      Position = position,
      Velocity = zeroVec,
      Force = zeroVec,
      Mass = mass,
      Width = width,
      Height = height,
      Flying = False,
      Grounded = False,
      JumpSpeed = DefaultJumpSpeed,
      Gravity = DefaultGravity,
      PenetrationEpsilonSmall = DefaultPenetrationEpsilonSmall,
      PenetrationEpsilonBig = DefaultPenetrationEpsilonBig,
      AirMovementSuppression = DefaultAirMovementSuppression,
      FlyingSpeedMultipier = DefaultFlyingSpeedMultipier,
      PositionHistoryLength = DefaultPositionHistoryLength\<rparr>"

text \<open>
  The box that \<^verbatim>\<open>UpdateCollider\<close> and \<^verbatim>\<open>UpdateColliderAtPosition\<close> both build: the feet
  are at the given position, the box reaches down by \<^verbatim>\<open>Height\<close> and out by half of \<^verbatim>\<open>Width\<close>.
\<close>

definition colliderAt :: "F32 \<Rightarrow> RigidBody \<Rightarrow> Vec3 \<Rightarrow> Box" where
  "colliderAt F r position =
     \<lparr>Min_box = Sub32 F position
                  (Vec3 (fdiv F (Width r) 2) (Height r) (fdiv F (Width r) 2)),
      Max_box = Add32 F position
                  (Vec3 (fdiv F (Width r) 2) 0 (fdiv F (Width r) 2))\<rparr>"

definition UpdateCollider :: "F32 \<Rightarrow> RigidBody \<Rightarrow> RigidBody" where
  "UpdateCollider F r = r\<lparr>Collider := Some (colliderAt F r (Position r))\<rparr>"

definition UpdateColliderAtPosition :: "F32 \<Rightarrow> RigidBody \<Rightarrow> Vec3 \<Rightarrow> RigidBody" where
  "UpdateColliderAtPosition F r position = r\<lparr>Collider := Some (colliderAt F r position)\<rparr>"

definition Jump :: "RigidBody \<Rightarrow> RigidBody" where
  "Jump r =
     (if Grounded r
      then r\<lparr>Velocity := Vec3 (X (Velocity r)) (JumpSpeed r) (Z (Velocity r)),
             Grounded := False\<rparr>
      else r)"

text \<open>
  \<^verbatim>\<open>AppendHistory\<close>: a nil history and an empty one are both the empty list. The slice
  expression \<^verbatim>\<open>h[:len(h)-1]\<close> drops the last element; it is reached only after the
  prepend, when the history is not empty.
\<close>

definition AppendHistory :: "RigidBody \<Rightarrow> RigidBody" where
  "AppendHistory r =
     (let h = Position r # PositionHistory r
      in if int (length h) > PositionHistoryLength r
         then r\<lparr>PositionHistory := butlast h\<rparr>
         else r\<lparr>PositionHistory := h\<rparr>)"

text \<open>
  A caller that moves the body through the positions \<open>ps\<close>, one after the other, and
  calls \<^verbatim>\<open>AppendHistory\<close> at each, as \<^verbatim>\<open>SetPosition\<close> of the movement controller does.
\<close>

fun appendEach :: "Vec3 list \<Rightarrow> RigidBody \<Rightarrow> RigidBody" where
  "appendEach [] r = r"
| "appendEach (p # ps) r = appendEach ps (AppendHistory (r\<lparr>Position := p\<rparr>))"

subsection \<open>Move\<close>

text \<open>
  The wall test of both sweeps: the inner loop over \<^verbatim>\<open>walls\<close> that sets the local
  \<^verbatim>\<open>hasCollision\<close> and breaks at the first wall whose full 3-axis \<^verbatim>\<open>Intersection\<close> with the
  collider reports an overlap.
\<close>

fun hasCollision :: "Box \<Rightarrow> Box list \<Rightarrow> bool" where
  "hasCollision c [] = False"
| "hasCollision c (wall # walls) =
     (if fst (Intersection c wall) then True else hasCollision c walls)"

text \<open>
  The ground block at the head of \<^verbatim>\<open>Move\<close>: landing zeroes the vertical velocity, a
  supplied ground box sets \<^verbatim>\<open>Grounded\<close>, and a Y penetration deeper than 0.001 lifts the
  body by the depth plus 0.2 and rebuilds the collider.
\<close>

definition resolveGround :: "F32 \<Rightarrow> RigidBody \<Rightarrow> Box option \<Rightarrow> RigidBody" where
  "resolveGround F r ground =
     (let wasGrounded = Grounded r
      in case ground of
           None \<Rightarrow> r\<lparr>Grounded := False\<rparr>
         | Some g \<Rightarrow>
             (let r1 = (if \<not> wasGrounded
                        then r\<lparr>Velocity := Vec3 (X (Velocity r)) 0 (Z (Velocity r))\<rparr>
                        else r);
                  r2 = r1\<lparr>Grounded := True\<rparr>
              in (case Collider r2 of
                    None \<Rightarrow> r2
                  | Some c \<Rightarrow>
                      (case IntersectionY F g c of
                         (b, depth) \<Rightarrow>
                           if b \<and> depth > f32_0_001
                           then UpdateCollider F
                                  (r2\<lparr>Position :=
                                        Add32 F (Position r2)
                                          (Vec3 0 (fadd F depth f32_0_2) 0)\<rparr>)
                           else r2))))"

text \<open>The two multipliers applied to \<^verbatim>\<open>movement\<close> after the ground block.\<close>

definition scaleMovement :: "F32 \<Rightarrow> RigidBody \<Rightarrow> Vec3 \<Rightarrow> Vec3" where
  "scaleMovement F r movement =
     (let movement1 = (if \<not> Grounded r \<and> \<not> Flying r
                       then Mul32 F movement (AirMovementSuppression r) else movement)
      in if Flying r then Mul32 F movement1 (FlyingSpeedMultipier r) else movement1)"

text \<open>
  The body of the vertical \<^verbatim>\<open>for\<close> loop, by the number of iterations left. A colliding
  step leaves the loop (\<^verbatim>\<open>break\<close>) with the collider still at the tentative position.
\<close>

fun verticalLoop :: "F32 \<Rightarrow> nat \<Rightarrow> Vec3 \<Rightarrow> Box list \<Rightarrow> RigidBody \<Rightarrow> RigidBody" where
  "verticalLoop F 0 stepMove walls r = r"
| "verticalLoop F (Suc n) stepMove walls r =
     (let tempPos = Add32 F (Position r) stepMove;
          r1 = UpdateColliderAtPosition F r tempPos
      in if \<not> hasCollision (colliderAt F r tempPos) walls
         then verticalLoop F n stepMove walls (r1\<lparr>Position := tempPos\<rparr>)
         else
           let r2 = (if Y (Velocity r1) < 0 then r1\<lparr>Grounded := True\<rparr> else r1)
           in r2\<lparr>Velocity := Vec3 (X (Velocity r2)) 0 (Z (Velocity r2))\<rparr>)"

text \<open>
  The number of vertical sub-steps, \<^verbatim>\<open>int(mgl32.Abs(verticalMove.Y())*5.0) + 1\<close>: a
  \<^verbatim>\<open>float32\<close> product, its conversion to a 64-bit \<^verbatim>\<open>int\<close>, and an \<^verbatim>\<open>int\<close> addition. The
  loop \<^verbatim>\<open>for i := 0; i < steps; i++\<close> runs \<open>nat steps\<close> times, that is not at all when
  \<^verbatim>\<open>steps\<close> is not positive.
\<close>

definition verticalSteps :: "F32 \<Rightarrow> real \<Rightarrow> int" where
  "verticalSteps F dy = wrap64 (toInt (fovf F) (fmul F \<bar>dy\<bar> 5) + 1)"

definition verticalMoveOf :: "RigidBody \<Rightarrow> Vec3 \<Rightarrow> Vec3" where
  "verticalMoveOf r movement =
     (if \<not> Flying r \<and> \<not> Grounded r then Vec3 0 (Y (Velocity r)) 0
      else if Flying r then Vec3 0 (Y movement) 0
      else Vec3 0 0 0)"

definition verticalSweep :: "F32 \<Rightarrow> RigidBody \<Rightarrow> Vec3 \<Rightarrow> Box list \<Rightarrow> RigidBody" where
  "verticalSweep F r movement walls =
     (let verticalMove = verticalMoveOf r movement
      in if flen F verticalMove > 0
         then
           let steps = verticalSteps F (Y verticalMove);
               stepMove = Mul32 F verticalMove (fdiv F 1 (fofint F steps))
           in verticalLoop F (nat steps) stepMove walls r
         else r)"

fun horizontalLoop :: "F32 \<Rightarrow> nat \<Rightarrow> Vec3 \<Rightarrow> Box list \<Rightarrow> RigidBody \<Rightarrow> RigidBody" where
  "horizontalLoop F 0 stepMove walls r = r"
| "horizontalLoop F (Suc n) stepMove walls r =
     (let tempPos = Add32 F (Position r) stepMove;
          r1 = UpdateColliderAtPosition F r tempPos
      in if \<not> hasCollision (colliderAt F r tempPos) walls
         then horizontalLoop F n stepMove walls (r1\<lparr>Position := tempPos\<rparr>)
         else r1)"

definition horizontalSweep :: "F32 \<Rightarrow> RigidBody \<Rightarrow> Vec3 \<Rightarrow> Box list \<Rightarrow> RigidBody" where
  "horizontalSweep F r movement walls =
     (let horizMove = Vec3 (X movement) 0 (Z movement)
      in if flen F horizMove > f32_0_001
         then
           let steps = 4;
               stepMove = Mul32 F horizMove (fdiv F 1 (fofint F steps))
           in horizontalLoop F (nat steps) stepMove walls r
         else r)"

text \<open>
  \<^verbatim>\<open>Move\<close> itself. The \<^verbatim>\<open>ceiling\<close> argument is accepted and never read, as in the source.
\<close>

definition Move :: "F32 \<Rightarrow> RigidBody \<Rightarrow> Vec3 \<Rightarrow> Box option \<Rightarrow> Box option \<Rightarrow> Box list \<Rightarrow> RigidBody" where
  "Move F r movement ground ceil walls =
     (let r1 = resolveGround F r ground;
          movement1 = scaleMovement F r1 movement
      in if Collider r1 \<noteq> None \<and> length walls > 0
         then UpdateCollider F
                (horizontalSweep F (verticalSweep F r1 movement1 walls) movement1 walls)
         else
           let r2 = r1\<lparr>Position := Add32 F (Position r1) movement1\<rparr>;
               r3 = (if \<not> Flying r2
                     then r2\<lparr>Position := Add32 F (Position r2) (Vec3 0 (Y (Velocity r2)) 0)\<rparr>
                     else r2)
           in UpdateCollider F r3)"

section \<open>The physics engine's per-body update\<close>

text \<open>
  \<^verbatim>\<open>PhysicsEngine.update\<close> reads nothing of the engine; \<^verbatim>\<open>Tick\<close> calls it once for every
  registered body and then the body's callback. \<^verbatim>\<open>delta\<close> is converted to \<^verbatim>\<open>float32\<close>
  before use. The division \<^verbatim>\<open>1 / body.Mass\<close> is meaningful in this model for a non-zero
  mass only. The function is one sequence of statements in the source; it is written here
  as the composition of its four commented blocks, in their order, with the arithmetic of
  the reals.
\<close>






section \<open>The movement controller (movement.go)\<close>





section \<open>Notions used by the statements about the sweeps\<close>

text \<open>
  The position reached from \<open>pos\<close> after \<open>j\<close> sub-steps of \<open>stepMove\<close>, each a
  \<^verbatim>\<open>float32\<close> addition; that the collider rebuilt at a position overlaps no wall; and
  that, of \<open>n\<close> sub-steps, the sweep commits exactly the first \<open>k\<close>: their tentative
  colliders overlap no wall, and when \<open>k < n\<close> the next one overlaps some wall.
\<close>

definition tentative :: "F32 \<Rightarrow> Vec3 \<Rightarrow> Vec3 \<Rightarrow> nat \<Rightarrow> Vec3" where
  "tentative F pos stepMove j = ((\<lambda>p. Add32 F p stepMove) ^^ j) pos"

definition clearAt :: "F32 \<Rightarrow> RigidBody \<Rightarrow> Vec3 \<Rightarrow> Box list \<Rightarrow> bool" where
  "clearAt F r pos walls = (\<forall>w \<in> set walls. \<not> fst (Intersection (colliderAt F r pos) w))"

definition commits :: "F32 \<Rightarrow> RigidBody \<Rightarrow> Vec3 \<Rightarrow> Box list \<Rightarrow> nat \<Rightarrow> nat \<Rightarrow> bool" where
  "commits F r stepMove walls n k =
     (k \<le> n \<and>
      (\<forall>j \<in> {1..k}. clearAt F r (tentative F (Position r) stepMove j) walls) \<and>
      (k < n \<longrightarrow> \<not> clearAt F r (tentative F (Position r) stepMove (Suc k)) walls))"

text \<open>The collider is the one derived from the position.\<close>

definition inSync :: "F32 \<Rightarrow> RigidBody \<Rightarrow> bool" where
  "inSync F r = (Collider r = Some (colliderAt F r (Position r)))"

text \<open>The ground block of \<^verbatim>\<open>Move\<close> lifts a body with collider \<open>c\<close>.\<close>

definition lifts :: "F32 \<Rightarrow> Box option \<Rightarrow> Box \<Rightarrow> bool" where
  "lifts F ground c =
     (case ground of
        None \<Rightarrow> False
      | Some g \<Rightarrow> fst (IntersectionY F g c) \<and> snd (IntersectionY F g c) > f32_0_001)"

section \<open>Notions used by the statement about the controller\<close>





section \<open>Concrete inputs\<close>

text \<open>
  Two boxes whose X and Y depths are both 1 and whose Z depth is 6, and two unit cubes
  that touch on the plane \<open>x = 1\<close>.
\<close>

definition tieBoxA :: Box where
  "tieBoxA = \<lparr>Min_box = Vec3 0 0 0, Max_box = Vec3 2 2 6\<rparr>"

definition tieBoxB :: Box where
  "tieBoxB = \<lparr>Min_box = Vec3 1 1 0, Max_box = Vec3 3 3 6\<rparr>"

definition touchBoxA :: Box where
  "touchBoxA = \<lparr>Min_box = Vec3 0 0 0, Max_box = Vec3 1 1 1\<rparr>"

definition touchBoxB :: Box where
  "touchBoxB = \<lparr>Min_box = Vec3 1 0 0, Max_box = Vec3 2 1 1\<rparr>"

text \<open>A fresh body whose history is capped at two entries.\<close>

definition histBody :: RigidBody where
  "histBody = (NewRigidBody (Vec3 1 2 3) 70 1 2)\<lparr>PositionHistoryLength := 2\<rparr>"




text \<open>
  Bodies of mass 70 and height 2 with their colliders built, and boxes around them: a
  body falling with speed 1 above a floor; a body standing half a unit deep in a ground
  box, with a lintel half a unit above its head; and a body of width one half in a
  corridor of width 1 between two walls, above a ground box it does not reach.
\<close>

definition fallingBody :: RigidBody where
  "fallingBody = UpdateCollider exactF32 ((NewRigidBody (Vec3 0 3 0) 70 1 2)\<lparr>Velocity := Vec3 0 (- 1) 0\<rparr>)"

definition floorWall :: Box where
  "floorWall = \<lparr>Min_box = Vec3 (- 1) (- 1) (- 1), Max_box = Vec3 1 (1 / 4) 1\<rparr>"

definition sinkBody :: RigidBody where
  "sinkBody = UpdateCollider exactF32 (NewRigidBody (Vec3 0 2 0) 70 1 2)"

definition highGround :: Box where
  "highGround = \<lparr>Min_box = Vec3 (- 1) (- 1) (- 1), Max_box = Vec3 1 (1 / 2) 1\<rparr>"

definition lintel :: Box where
  "lintel = \<lparr>Min_box = Vec3 (- 1) (5 / 2) (- 1), Max_box = Vec3 1 (7 / 2) 1\<rparr>"

definition corridorBody :: RigidBody where
  "corridorBody = UpdateCollider exactF32 (NewRigidBody (Vec3 0 2 0) 70 (1 / 2) 2)"

definition leftWall :: Box where
  "leftWall = \<lparr>Min_box = Vec3 (- 2) 0 (- 5), Max_box = Vec3 (- (1 / 2)) 3 5\<rparr>"

definition rightWall :: Box where
  "rightWall = \<lparr>Min_box = Vec3 (1 / 2) 0 (- 5), Max_box = Vec3 2 3 5\<rparr>"

definition lowGround :: Box where
  "lowGround = \<lparr>Min_box = Vec3 (- 5) (- 2) (- 5), Max_box = Vec3 5 (- 1) 5\<rparr>"




text \<open>
  An instance of the primitives for the vertical velocity \<^verbatim>\<open>float32(1.4)\<close>, which is
  \<open>11744051 / 2 ^ 23\<close>: its product with 5 rounded to the nearest \<^verbatim>\<open>float32\<close>, which is
  7, every other operation exact.
\<close>

definition productRounding :: F32 where
  "productRounding =
     exactF32\<lparr>fmul := (\<lambda>a b. if a = 11744051 / 8388608 \<and> b = 5 then 7 else a * b)\<rparr>"

section \<open>Properties of Intersection\<close>

lemma Intersection_separated: "separated a b \<Longrightarrow> Intersection a b = (False, zeroVec)"
  unfolding Intersection_def separated_def separatedX_def separatedY_def separatedZ_def
  by simp

text \<open>
  On boxes that are not strictly separated, \<^verbatim>\<open>Intersection\<close> answers true, and its
  vector is decided by the three depths alone.
\<close>

lemma Intersection_overlap:
  "\<not> separated a b \<Longrightarrow>
   Intersection a b =
     (True,
      if depthX a b < depthY a b \<and> depthX a b < depthZ a b
      then Vec3 (depthX a b *
                 signF (X (Max_box b) - X (Min_box a) - (X (Max_box a) - X (Min_box b)))) 0 0
      else if depthY a b < depthX a b \<and> depthY a b < depthZ a b
      then Vec3 0 (depthY a b *
                 signF (Y (Max_box b) - Y (Min_box a) - (Y (Max_box a) - Y (Min_box b)))) 0
      else Vec3 0 0 (depthZ a b *
                 signF (Z (Max_box b) - Z (Min_box a) - (Z (Max_box a) - Z (Min_box b)))))"
  unfolding Intersection_def separated_def separatedX_def separatedY_def separatedZ_def
    depthX_def depthY_def depthZ_def Let_def
  by simp

lemma Intersection_fst: "fst (Intersection a b) = (\<not> separated a b)"
  by (cases "separated a b") (simp_all add: Intersection_separated Intersection_overlap)

lemma separated_sym: "separated a b = separated b a"
  unfolding separated_def separatedX_def separatedY_def separatedZ_def by blast

lemma Intersection_false_zero: "(Intersection a b = (False, zeroVec)) = separated a b"
  by (cases "separated a b") (simp_all add: Intersection_separated Intersection_overlap)

lemma depthX_touch:
  "\<not> separatedX a b \<Longrightarrow> X (Max_box a) = X (Min_box b) \<or> X (Max_box b) = X (Min_box a) \<Longrightarrow>
   depthX a b = 0"
  unfolding separatedX_def depthX_def minf_def by auto

lemma depthY_touch:
  "\<not> separatedY a b \<Longrightarrow> Y (Max_box a) = Y (Min_box b) \<or> Y (Max_box b) = Y (Min_box a) \<Longrightarrow>
   depthY a b = 0"
  unfolding separatedY_def depthY_def minf_def by auto

lemma depthZ_touch:
  "\<not> separatedZ a b \<Longrightarrow> Z (Max_box a) = Z (Min_box b) \<or> Z (Max_box b) = Z (Min_box a) \<Longrightarrow>
   depthZ a b = 0"
  unfolding separatedZ_def depthZ_def minf_def by auto

lemma touch_on_X:
  "\<not> separated a b \<Longrightarrow> X (Max_box a) = X (Min_box b) \<or> X (Max_box b) = X (Min_box a) \<Longrightarrow>
   fst (Intersection a b) \<and> depthX a b = 0 \<and> X (snd (Intersection a b)) = 0"
  using depthX_touch[of a b] by (simp add: Intersection_overlap separated_def)

lemma touch_on_Y:
  "\<not> separated a b \<Longrightarrow> Y (Max_box a) = Y (Min_box b) \<or> Y (Max_box b) = Y (Min_box a) \<Longrightarrow>
   fst (Intersection a b) \<and> depthY a b = 0 \<and> Y (snd (Intersection a b)) = 0"
  using depthY_touch[of a b] by (simp add: Intersection_overlap separated_def)

lemma touch_on_Z:
  "\<not> separated a b \<Longrightarrow> Z (Max_box a) = Z (Min_box b) \<or> Z (Max_box b) = Z (Min_box a) \<Longrightarrow>
   fst (Intersection a b) \<and> depthZ a b = 0 \<and> Z (snd (Intersection a b)) = 0"
  using depthZ_touch[of a b] by (simp add: Intersection_overlap separated_def)

text \<open>
  C1 (evaluation at the failing input). The boxes \<open>tieBoxA\<close> and \<open>tieBoxB\<close> overlap with
  depth 1 on X, depth 1 on Y and depth 6 on Z. Both strict tests of the selection fail on
  the tie, so \<^verbatim>\<open>Intersection\<close> falls through to its last branch and answers with the
  Z axis and depth 6: the penetration vector is zero on X and on Y, and the axis it
  resolves along is not one of minimum depth.
\<close>

theorem Intersection_tie_XY_resolves_on_Z:
  "Intersection tieBoxA tieBoxB = (True, Vec3 0 0 6) \<and>
   depthX tieBoxA tieBoxB = 1 \<and> depthY tieBoxA tieBoxB = 1 \<and> depthZ tieBoxA tieBoxB = 6"
  by (simp add: Intersection_def tieBoxA_def tieBoxB_def depthX_def depthY_def depthZ_def
      minf_def signF_def Let_def)

text \<open>
  C6. \<^verbatim>\<open>Intersection\<close> returns false with the zero vector exactly when the two boxes are
  strictly separated on some axis. Boxes that are separated on no axis and touch on one
  (a maximum equal to the other box's minimum there) are reported as overlapping, the
  depth on the touching axis is zero, and the returned vector is zero on that axis.
\<close>

theorem Intersection_false_iff_separated:
  "(Intersection a b = (False, zeroVec)) = separated a b \<and>
   (\<not> separated a b \<and> (X (Max_box a) = X (Min_box b) \<or> X (Max_box b) = X (Min_box a)) \<longrightarrow>
      fst (Intersection a b) \<and> depthX a b = 0 \<and> X (snd (Intersection a b)) = 0) \<and>
   (\<not> separated a b \<and> (Y (Max_box a) = Y (Min_box b) \<or> Y (Max_box b) = Y (Min_box a)) \<longrightarrow>
      fst (Intersection a b) \<and> depthY a b = 0 \<and> Y (snd (Intersection a b)) = 0) \<and>
   (\<not> separated a b \<and> (Z (Max_box a) = Z (Min_box b) \<or> Z (Max_box b) = Z (Min_box a)) \<longrightarrow>
      fst (Intersection a b) \<and> depthZ a b = 0 \<and> Z (snd (Intersection a b)) = 0)"
  using Intersection_false_zero[of a b] touch_on_X[of a b] touch_on_Y[of a b] touch_on_Z[of a b]
  by blast

theorem Intersection_false_iff_separated_witness:
  "\<not> separated touchBoxA touchBoxB \<and> X (Max_box touchBoxA) = X (Min_box touchBoxB) \<and>
   fst (Intersection touchBoxA touchBoxB) \<and> depthX touchBoxA touchBoxB = 0 \<and>
   X (snd (Intersection touchBoxA touchBoxB)) = 0"
proof -
  have sep: "\<not> separated touchBoxA touchBoxB"
    by (simp add: separated_def separatedX_def separatedY_def separatedZ_def
        touchBoxA_def touchBoxB_def)
  have touch: "X (Max_box touchBoxA) = X (Min_box touchBoxB)"
    by (simp add: touchBoxA_def touchBoxB_def)
  from sep touch Intersection_false_iff_separated[of touchBoxA touchBoxB]
  show ?thesis by blast
qed

text \<open>
  C7. The boolean result of \<^verbatim>\<open>Intersection\<close> is the same in both call orders:
  \<^verbatim>\<open>A.Intersection(B)\<close> reports an overlap if and only if \<^verbatim>\<open>B.Intersection(A)\<close> does.
\<close>

theorem Intersection_bool_symmetric:
  "fst (Intersection a b) = fst (Intersection b a)"
  by (simp add: Intersection_fst separated_sym)

section \<open>The position history\<close>

lemma AppendHistory_fields:
  "Position (AppendHistory r) = Position r"
  "PositionHistoryLength (AppendHistory r) = PositionHistoryLength r"
  "Velocity (AppendHistory r) = Velocity r"
  "Grounded (AppendHistory r) = Grounded r"
  by (simp_all add: AppendHistory_def Let_def)

lemma AppendHistory_take:
  assumes "1 \<le> PositionHistoryLength r"
    and "int (length (PositionHistory r)) \<le> PositionHistoryLength r"
  shows "PositionHistory (AppendHistory r) =
         take (nat (PositionHistoryLength r)) (Position r # PositionHistory r)"
proof (cases "int (length (PositionHistory r)) = PositionHistoryLength r")
  case True
  then have n: "nat (PositionHistoryLength r) = length (PositionHistory r)" by simp
  have "butlast (Position r # PositionHistory r) =
        take (length (PositionHistory r)) (Position r # PositionHistory r)"
    by (simp add: butlast_conv_take)
  with True n show ?thesis by (simp add: AppendHistory_def Let_def)
next
  case False
  with assms have lt: "int (length (PositionHistory r)) + 1 \<le> PositionHistoryLength r"
    by linarith
  then have no: "\<not> int (length (Position r # PositionHistory r)) > PositionHistoryLength r"
    by simp
  from lt have "length (Position r # PositionHistory r) \<le> nat (PositionHistoryLength r)"
    by simp
  then have "take (nat (PositionHistoryLength r)) (Position r # PositionHistory r) =
             Position r # PositionHistory r"
    by (rule take_all)
  with no show ?thesis by (simp add: AppendHistory_def Let_def)
qed

lemma AppendHistory_funpow_fields:
  "Position ((AppendHistory ^^ n) r) = Position r \<and>
   PositionHistoryLength ((AppendHistory ^^ n) r) = PositionHistoryLength r"
  by (induction n) (simp_all add: AppendHistory_fields)

lemma AppendHistory_funpow_length:
  assumes "1 \<le> PositionHistoryLength r"
    and "int (length (PositionHistory r)) \<le> PositionHistoryLength r"
  shows "length (PositionHistory ((AppendHistory ^^ n) r)) =
         min (length (PositionHistory r) + n) (nat (PositionHistoryLength r))"
proof (induction n)
  case 0
  from assms show ?case by simp
next
  case (Suc n)
  let ?r = "(AppendHistory ^^ n) r"
  have c: "PositionHistoryLength ?r = PositionHistoryLength r"
    by (simp add: AppendHistory_funpow_fields)
  from Suc assms c have le: "int (length (PositionHistory ?r)) \<le> PositionHistoryLength ?r"
    by simp
  from assms c have one: "1 \<le> PositionHistoryLength ?r" by simp
  from AppendHistory_take[OF one le] Suc c show ?case by simp
qed

lemma AppendHistory_funpow_head:
  assumes "1 \<le> PositionHistoryLength r"
    and "int (length (PositionHistory r)) \<le> PositionHistoryLength r"
    and "0 < n"
  shows "PositionHistory ((AppendHistory ^^ n) r) ! 0 = Position r"
proof -
  from assms(3) obtain k where n: "n = Suc k" by (cases n) auto
  let ?r = "(AppendHistory ^^ k) r"
  have c: "PositionHistoryLength ?r = PositionHistoryLength r" and p: "Position ?r = Position r"
    by (simp_all add: AppendHistory_funpow_fields)
  from AppendHistory_funpow_length[OF assms(1,2), of k] assms
  have le: "int (length (PositionHistory ?r)) \<le> PositionHistoryLength ?r"
    by (simp add: c)
  from assms c have one: "1 \<le> PositionHistoryLength ?r" by simp
  from assms(1) obtain m where m: "nat (PositionHistoryLength r) = Suc m"
    by (cases "nat (PositionHistoryLength r)") auto
  from AppendHistory_take[OF one le] c p n m show ?thesis by simp
qed

lemma take_append_take: "take n (xs @ take n ys) = take n (xs @ ys)"
  by (simp add: min_def)

lemma appendEach_history:
  assumes "1 \<le> PositionHistoryLength r"
    and "int (length (PositionHistory r)) \<le> PositionHistoryLength r"
  shows "PositionHistory (appendEach ps r) =
           take (nat (PositionHistoryLength r)) (rev ps @ PositionHistory r)"
  using assms
proof (induction ps arbitrary: r)
  case Nil
  then show ?case by simp
next
  case (Cons p ps)
  let ?q = "r\<lparr>Position := p\<rparr>"
  let ?r' = "AppendHistory ?q"
  from Cons.prems have q: "1 \<le> PositionHistoryLength ?q"
    "int (length (PositionHistory ?q)) \<le> PositionHistoryLength ?q"
    by simp_all
  have h: "PositionHistory ?r' = take (nat (PositionHistoryLength r)) (p # PositionHistory r)"
    using AppendHistory_take[OF q] by simp
  have c: "PositionHistoryLength ?r' = PositionHistoryLength r"
    by (simp add: AppendHistory_fields)
  from h c Cons.prems have r': "1 \<le> PositionHistoryLength ?r'"
    "int (length (PositionHistory ?r')) \<le> PositionHistoryLength ?r'"
    by simp_all
  from Cons.IH[OF r'] h c show ?case
    by (simp add: take_append_take del: take_append)
qed

lemma appendEach_full:
  assumes "1 \<le> PositionHistoryLength r"
    and "int (length (PositionHistory r)) \<le> PositionHistoryLength r"
    and "PositionHistoryLength r < int (length ps)"
  shows "int (length (PositionHistory (appendEach ps r))) = PositionHistoryLength r \<and>
         PositionHistory (appendEach ps r) ! 0 = last ps"
proof -
  from assms have ne: "ps \<noteq> []" by auto
  from assms(1) obtain m where m: "nat (PositionHistoryLength r) = Suc m"
    by (cases "nat (PositionHistoryLength r)") auto
  from ne obtain x xs where x: "rev ps = x # xs" by (cases "rev ps") auto
  with ne have "x = last ps" by (metis last_rev list.sel(1) rev_rev_ident hd_rev)
  moreover have "take (Suc m) (rev ps @ PositionHistory r) = x # take m (xs @ PositionHistory r)"
    by (simp only: x append_Cons take_Suc_Cons)
  ultimately have
    "take (nat (PositionHistoryLength r)) (rev ps @ PositionHistory r) ! 0 = last ps"
    by (simp only: m nth_Cons_0)
  moreover from assms have
    "int (length (take (nat (PositionHistoryLength r)) (rev ps @ PositionHistory r))) =
     PositionHistoryLength r"
    by simp
  ultimately show ?thesis by (simp add: appendEach_history[OF assms(1,2)])
qed

text \<open>
  C9. \<^verbatim>\<open>AppendHistory\<close> puts the current position in front of the history and drops the
  last entry once the length exceeds \<^verbatim>\<open>PositionHistoryLength\<close>. For a cap of at least 1
  and a history no longer than the cap, one call leaves the first cap-many entries of the
  prepended history, and more calls than the cap leave a history of exactly cap-many
  entries with the body's position at index 0; when the body moves between the calls,
  the entry at index 0 is the position of the last call.
\<close>

theorem AppendHistory_reaches_cap:
  assumes "1 \<le> PositionHistoryLength r"
    and "int (length (PositionHistory r)) \<le> PositionHistoryLength r"
    and "PositionHistoryLength r < int n"
  shows "PositionHistory (AppendHistory r) =
           take (nat (PositionHistoryLength r)) (Position r # PositionHistory r) \<and>
         int (length (PositionHistory ((AppendHistory ^^ n) r))) = PositionHistoryLength r \<and>
         PositionHistory ((AppendHistory ^^ n) r) ! 0 = Position r \<and>
         (length ps = n \<longrightarrow>
            int (length (PositionHistory (appendEach ps r))) = PositionHistoryLength r \<and>
            PositionHistory (appendEach ps r) ! 0 = last ps)"
proof -
  from assms have pos: "0 < n" by (cases n) auto
  from assms have "min (length (PositionHistory r) + n) (nat (PositionHistoryLength r)) =
                   nat (PositionHistoryLength r)"
    by linarith
  with AppendHistory_funpow_length[OF assms(1,2), of n] assms(1)
  have "int (length (PositionHistory ((AppendHistory ^^ n) r))) = PositionHistoryLength r"
    by simp
  moreover have "length ps = n \<longrightarrow>
            int (length (PositionHistory (appendEach ps r))) = PositionHistoryLength r \<and>
            PositionHistory (appendEach ps r) ! 0 = last ps"
    using appendEach_full[OF assms(1,2), of ps] assms(3) by blast
  ultimately show ?thesis
    using AppendHistory_take[OF assms(1,2)] AppendHistory_funpow_head[OF assms(1,2) pos]
    by simp
qed

theorem AppendHistory_reaches_cap_witness:
  "int (length (PositionHistory ((AppendHistory ^^ 3) histBody))) = 2 \<and>
   PositionHistory ((AppendHistory ^^ 3) histBody) ! 0 = Vec3 1 2 3 \<and>
   PositionHistory ((AppendHistory ^^ 3) histBody) = [Vec3 1 2 3, Vec3 1 2 3] \<and>
   PositionHistory (appendEach [Vec3 1 0 0, Vec3 2 0 0, Vec3 3 0 0] histBody) ! 0 = Vec3 3 0 0 \<and>
   PositionHistory (appendEach [Vec3 1 0 0, Vec3 2 0 0, Vec3 3 0 0] histBody) =
     [Vec3 3 0 0, Vec3 2 0 0]"
proof -
  have h: "1 \<le> PositionHistoryLength histBody"
    "int (length (PositionHistory histBody)) \<le> PositionHistoryLength histBody"
    "PositionHistoryLength histBody < int 3"
    by (simp_all add: histBody_def NewRigidBody_def)
  have p: "Position histBody = Vec3 1 2 3" "PositionHistoryLength histBody = 2"
    by (simp_all add: histBody_def NewRigidBody_def)
  have e: "PositionHistory ((AppendHistory ^^ 3) histBody) = [Vec3 1 2 3, Vec3 1 2 3]"
    by (simp add: numeral_3_eq_3 AppendHistory_def Let_def histBody_def NewRigidBody_def)
  have f: "PositionHistory (appendEach [Vec3 1 0 0, Vec3 2 0 0, Vec3 3 0 0] histBody) =
     [Vec3 3 0 0, Vec3 2 0 0]"
    by (simp add: AppendHistory_def Let_def histBody_def NewRigidBody_def)
  from AppendHistory_reaches_cap[OF h, of "[Vec3 1 0 0, Vec3 2 0 0, Vec3 3 0 0]"] p e f
  show ?thesis by simp
qed

section \<open>What Move leaves unchanged\<close>

lemma verticalLoop_frame:
  "X (Velocity (verticalLoop F n s w r)) = X (Velocity r) \<and>
   Z (Velocity (verticalLoop F n s w r)) = Z (Velocity r) \<and>
   Width (verticalLoop F n s w r) = Width r \<and>
   Height (verticalLoop F n s w r) = Height r \<and>
   Flying (verticalLoop F n s w r) = Flying r"
  by (induction n arbitrary: r) (simp_all add: Let_def UpdateColliderAtPosition_def)

lemma horizontalLoop_frame:
  "Velocity (horizontalLoop F n s w r) = Velocity r \<and>
   Width (horizontalLoop F n s w r) = Width r \<and>
   Height (horizontalLoop F n s w r) = Height r \<and>
   Flying (horizontalLoop F n s w r) = Flying r \<and>
   Grounded (horizontalLoop F n s w r) = Grounded r"
  by (induction n arbitrary: r) (simp_all add: Let_def UpdateColliderAtPosition_def)

lemma verticalSweep_frame:
  "X (Velocity (verticalSweep F r m w)) = X (Velocity r) \<and>
   Z (Velocity (verticalSweep F r m w)) = Z (Velocity r) \<and>
   Width (verticalSweep F r m w) = Width r \<and>
   Height (verticalSweep F r m w) = Height r \<and>
   Flying (verticalSweep F r m w) = Flying r"
  by (simp add: verticalSweep_def Let_def verticalLoop_frame)

lemma horizontalSweep_frame:
  "Velocity (horizontalSweep F r m w) = Velocity r \<and>
   Width (horizontalSweep F r m w) = Width r \<and>
   Height (horizontalSweep F r m w) = Height r \<and>
   Flying (horizontalSweep F r m w) = Flying r \<and>
   Grounded (horizontalSweep F r m w) = Grounded r"
  by (simp add: horizontalSweep_def Let_def horizontalLoop_frame)

lemma resolveGround_frame:
  "X (Velocity (resolveGround F r g)) = X (Velocity r) \<and>
   Z (Velocity (resolveGround F r g)) = Z (Velocity r) \<and>
   Width (resolveGround F r g) = Width r \<and>
   Height (resolveGround F r g) = Height r \<and>
   Flying (resolveGround F r g) = Flying r"
  by (simp add: resolveGround_def Let_def UpdateCollider_def split: option.split prod.split)

text \<open>
  C10. \<^verbatim>\<open>Move\<close> never changes the X and Z components of the body's velocity, whatever
  the movement vector, the ground, the ceiling and the walls are, and whatever the
  \<^verbatim>\<open>float32\<close> primitives compute: each of its writes to \<^verbatim>\<open>Velocity\<close> replaces the Y
  component only.
\<close>

theorem Move_keeps_horizontal_velocity:
  "X (Velocity (Move F r movement ground ceil walls)) = X (Velocity r) \<and>
   Z (Velocity (Move F r movement ground ceil walls)) = Z (Velocity r)"
  by (simp add: Move_def Let_def UpdateCollider_def horizontalSweep_frame
      verticalSweep_frame resolveGround_frame)

section \<open>The velocity clamp of update\<close>













section \<open>The two sweeps of Move\<close>

lemma hasCollision_iff: "hasCollision c walls = (\<exists>w \<in> set walls. fst (Intersection c w))"
  by (induction walls) auto

lemma hasCollision_clearAt: "hasCollision (colliderAt F r pos) walls = (\<not> clearAt F r pos walls)"
  by (simp add: hasCollision_iff clearAt_def)

lemma colliderAt_cong:
  "Width r' = Width r \<Longrightarrow> Height r' = Height r \<Longrightarrow> colliderAt F r' = colliderAt F r"
  by (rule ext) (simp add: colliderAt_def)

lemma clearAt_cong:
  "Width r' = Width r \<Longrightarrow> Height r' = Height r \<Longrightarrow> clearAt F r' = clearAt F r"
  using colliderAt_cong[of r' r F] by (intro ext) (simp add: clearAt_def)

lemma tentative_0: "tentative F pos s 0 = pos"
  by (simp add: tentative_def)

lemma tentative_1: "tentative F pos s (Suc 0) = Add32 F pos s"
  by (simp add: tentative_def)

lemma tentative_Suc: "tentative F (Add32 F pos s) s j = tentative F pos s (Suc j)"
  using funpow_swap1[of "\<lambda>p. Add32 F p s" j pos] by (simp add: tentative_def)

lemma commits_stop:
  "\<not> clearAt F r (Add32 F (Position r) s) walls \<Longrightarrow> commits F r s walls (Suc n) 0"
  by (simp add: commits_def tentative_1)

lemma commits_step:
  assumes c: "clearAt F r (Add32 F (Position r) s) walls"
    and w: "Width r' = Width r" and h: "Height r' = Height r"
    and p: "Position r' = Add32 F (Position r) s"
    and k: "commits F r' s walls n k"
  shows "commits F r s walls (Suc n) (Suc k)"
proof -
  have cl: "clearAt F r' = clearAt F r" using w h by (rule clearAt_cong)
  have "clearAt F r (tentative F (Position r) s j) walls" if j: "j \<in> {1..Suc k}" for j
  proof (cases j)
    case 0
    with j show ?thesis by simp
  next
    case (Suc i)
    show ?thesis
    proof (cases i)
      case 0
      with Suc c show ?thesis by (simp add: tentative_1)
    next
      case (Suc i')
      with \<open>j = Suc i\<close> j have "i \<in> {1..k}" by simp
      with k have "clearAt F r' (tentative F (Position r') s i) walls"
        by (simp add: commits_def)
      with cl p \<open>j = Suc i\<close> show ?thesis by (simp add: tentative_Suc)
    qed
  qed
  moreover have "k < n \<longrightarrow> \<not> clearAt F r (tentative F (Position r) s (Suc (Suc k))) walls"
    using k cl p by (simp add: commits_def tentative_Suc)
  moreover have "Suc k \<le> Suc n" using k by (simp add: commits_def)
  ultimately show ?thesis by (simp add: commits_def)
qed

lemma horizontalLoop_commits:
  "\<exists>k. commits F r s walls n k \<and>
       Position (horizontalLoop F n s walls r) = tentative F (Position r) s k"
proof (induction n arbitrary: r)
  case 0
  show ?case by (rule exI[of _ 0]) (simp add: commits_def tentative_0)
next
  case (Suc n)
  show ?case
  proof (cases "clearAt F r (Add32 F (Position r) s) walls")
    case False
    then have "horizontalLoop F (Suc n) s walls r = UpdateColliderAtPosition F r (Add32 F (Position r) s)"
      by (simp add: Let_def hasCollision_clearAt)
    then have "Position (horizontalLoop F (Suc n) s walls r) = tentative F (Position r) s 0"
      by (simp add: UpdateColliderAtPosition_def tentative_0)
    with commits_stop[OF False] show ?thesis by blast
  next
    case True
    let ?r' = "(UpdateColliderAtPosition F r (Add32 F (Position r) s))\<lparr>Position := Add32 F (Position r) s\<rparr>"
    from True have e: "horizontalLoop F (Suc n) s walls r = horizontalLoop F n s walls ?r'"
      by (simp add: Let_def hasCollision_clearAt)
    from Suc.IH[of ?r'] obtain k where k: "commits F ?r' s walls n k"
      and pk: "Position (horizontalLoop F n s walls ?r') = tentative F (Position ?r') s k"
      by blast
    have f: "Width ?r' = Width r" "Height ?r' = Height r" "Position ?r' = Add32 F (Position r) s"
      by (simp_all add: UpdateColliderAtPosition_def)
    from commits_step[OF True f k] have "commits F r s walls (Suc n) (Suc k)" .
    moreover from e pk f have "Position (horizontalLoop F (Suc n) s walls r) =
        tentative F (Position r) s (Suc k)"
      by (simp add: tentative_Suc)
    ultimately show ?thesis by blast
  qed
qed

lemma verticalLoop_commits:
  "\<exists>k. commits F r s walls n k \<and>
       Position (verticalLoop F n s walls r) = tentative F (Position r) s k"
proof (induction n arbitrary: r)
  case 0
  show ?case by (rule exI[of _ 0]) (simp add: commits_def tentative_0)
next
  case (Suc n)
  show ?case
  proof (cases "clearAt F r (Add32 F (Position r) s) walls")
    case False
    then have "Position (verticalLoop F (Suc n) s walls r) = tentative F (Position r) s 0"
      by (simp add: Let_def hasCollision_clearAt UpdateColliderAtPosition_def tentative_0)
    with commits_stop[OF False] show ?thesis by blast
  next
    case True
    let ?r' = "(UpdateColliderAtPosition F r (Add32 F (Position r) s))\<lparr>Position := Add32 F (Position r) s\<rparr>"
    from True have e: "verticalLoop F (Suc n) s walls r = verticalLoop F n s walls ?r'"
      by (simp add: Let_def hasCollision_clearAt)
    from Suc.IH[of ?r'] obtain k where k: "commits F ?r' s walls n k"
      and pk: "Position (verticalLoop F n s walls ?r') = tentative F (Position ?r') s k"
      by blast
    have f: "Width ?r' = Width r" "Height ?r' = Height r" "Position ?r' = Add32 F (Position r) s"
      by (simp_all add: UpdateColliderAtPosition_def)
    from commits_step[OF True f k] have "commits F r s walls (Suc n) (Suc k)" .
    moreover from e pk f have "Position (verticalLoop F (Suc n) s walls r) =
        tentative F (Position r) s (Suc k)"
      by (simp add: tentative_Suc)
    ultimately show ?thesis by blast
  qed
qed

text \<open>Both loops end at a position whose collider is clear, when they start at one.\<close>

lemma horizontalLoop_clear:
  "clearAt F r (Position r) walls \<Longrightarrow>
   clearAt F r (Position (horizontalLoop F n s walls r)) walls"
proof (induction n arbitrary: r)
  case 0
  then show ?case by simp
next
  case (Suc n)
  show ?case
  proof (cases "clearAt F r (Add32 F (Position r) s) walls")
    case False
    with Suc.prems show ?thesis
      by (simp add: Let_def hasCollision_clearAt UpdateColliderAtPosition_def)
  next
    case True
    let ?r' = "(UpdateColliderAtPosition F r (Add32 F (Position r) s))\<lparr>Position := Add32 F (Position r) s\<rparr>"
    have cl: "clearAt F ?r' = clearAt F r"
      by (rule clearAt_cong) (simp_all add: UpdateColliderAtPosition_def)
    have p: "Position ?r' = Add32 F (Position r) s" by (simp add: UpdateColliderAtPosition_def)
    from True cl p have "clearAt F ?r' (Position ?r') walls" by simp
    from Suc.IH[OF this] cl have "clearAt F r (Position (horizontalLoop F n s walls ?r')) walls"
      by simp
    with True show ?thesis by (simp add: Let_def hasCollision_clearAt)
  qed
qed

lemma verticalLoop_clear:
  "clearAt F r (Position r) walls \<Longrightarrow>
   clearAt F r (Position (verticalLoop F n s walls r)) walls"
proof (induction n arbitrary: r)
  case 0
  then show ?case by simp
next
  case (Suc n)
  show ?case
  proof (cases "clearAt F r (Add32 F (Position r) s) walls")
    case False
    with Suc.prems show ?thesis
      by (simp add: Let_def hasCollision_clearAt UpdateColliderAtPosition_def)
  next
    case True
    let ?r' = "(UpdateColliderAtPosition F r (Add32 F (Position r) s))\<lparr>Position := Add32 F (Position r) s\<rparr>"
    have cl: "clearAt F ?r' = clearAt F r"
      by (rule clearAt_cong) (simp_all add: UpdateColliderAtPosition_def)
    have p: "Position ?r' = Add32 F (Position r) s" by (simp add: UpdateColliderAtPosition_def)
    from True cl p have "clearAt F ?r' (Position ?r') walls" by simp
    from Suc.IH[OF this] cl have "clearAt F r (Position (verticalLoop F n s walls ?r')) walls"
      by simp
    with True show ?thesis by (simp add: Let_def hasCollision_clearAt)
  qed
qed

section \<open>Move, phase by phase\<close>

lemma resolveGround_Collider_None:
  "(Collider (resolveGround F r ground) = None) = (Collider r = None)"
  by (simp add: resolveGround_def Let_def UpdateCollider_def split: option.split prod.split)


lemma resolveGround_no_lift:
  "Collider r = Some c \<Longrightarrow> \<not> lifts F ground c \<Longrightarrow>
   Position (resolveGround F r ground) = Position r"
  by (cases ground) (auto simp: resolveGround_def Let_def lifts_def split: prod.split)

lemma verticalMoveOf_shape: "verticalMoveOf r m = Vec3 0 (Y (verticalMoveOf r m)) 0"
  by (simp add: verticalMoveOf_def)

lemma verticalSweep_unfold:
  assumes "flen F (Vec3 0 (Y (verticalMoveOf r m)) 0) > 0"
  shows "verticalSweep F r m walls =
         verticalLoop F (nat (verticalSteps F (Y (verticalMoveOf r m))))
           (Mul32 F (Vec3 0 (Y (verticalMoveOf r m)) 0)
              (fdiv F 1 (fofint F (verticalSteps F (Y (verticalMoveOf r m))))))
           walls r"
proof -
  obtain v where v: "verticalMoveOf r m = Vec3 0 v 0"
    using verticalMoveOf_shape by blast
  with assms show ?thesis
    by (simp add: verticalSweep_def Let_def)
qed


lemma toInt_floor: "0 \<le> p \<Longrightarrow> p < 2 ^ 63 \<Longrightarrow> toInt ovf p = \<lfloor>p\<rfloor>"
proof -
  assume p: "0 \<le> p" "p < 2 ^ 63"
  then have "0 \<le> \<lfloor>p\<rfloor>" by simp
  moreover from p have "\<lfloor>p\<rfloor> < 2 ^ 63" by (simp add: floor_less_iff)
  ultimately show ?thesis using p by (simp add: toInt_def Let_def)
qed

lemma toInt_overflow: "2 ^ 63 \<le> p \<Longrightarrow> toInt ovf p = ovf"
proof -
  assume p: "2 ^ 63 \<le> p"
  then have "(2 ^ 63 :: int) \<le> \<lfloor>p\<rfloor>" by (simp add: le_floor_iff)
  moreover from p have "0 \<le> p" by (smt (verit) zero_le_power)
  ultimately show ?thesis by (simp add: toInt_def Let_def)
qed

lemma wrap64_id: "- (2 ^ 63) \<le> i \<Longrightarrow> i < 2 ^ 63 \<Longrightarrow> wrap64 i = i"
  by (simp add: wrap64_def)

lemma verticalSteps_floor:
  assumes "0 \<le> fmul F \<bar>dy\<bar> 5" and "fmul F \<bar>dy\<bar> 5 < 2 ^ 63 - 1"
  shows "verticalSteps F dy = \<lfloor>fmul F \<bar>dy\<bar> 5\<rfloor> + 1"
proof -
  let ?p = "fmul F \<bar>dy\<bar> 5"
  from assms have t: "toInt (fovf F) ?p = \<lfloor>?p\<rfloor>" by (simp add: toInt_floor)
  from assms(1) have lo: "0 \<le> \<lfloor>?p\<rfloor>" by simp
  from assms(2) have "?p < of_int (2 ^ 63 - 1)" by simp
  then have hi: "\<lfloor>?p\<rfloor> < 2 ^ 63 - 1" by (simp only: floor_less_iff)
  from lo hi have "wrap64 (\<lfloor>?p\<rfloor> + 1) = \<lfloor>?p\<rfloor> + 1" by (simp add: wrap64_id)
  with t show ?thesis by (simp add: verticalSteps_def)
qed

lemma verticalSteps_overflow:
  "2 ^ 63 \<le> fmul F \<bar>dy\<bar> 5 \<Longrightarrow> verticalSteps F dy = wrap64 (fovf F + 1)"
  by (simp add: verticalSteps_def toInt_overflow)

lemma floor_succ_ceiling:
  "0 \<le> (p :: real) \<Longrightarrow>
   \<lfloor>p\<rfloor> + 1 = (if p \<in> \<int> then \<lceil>p\<rceil> + 1 else max 1 \<lceil>p\<rceil>)"
proof (cases "p \<in> \<int>")
  case True
  then have "\<lceil>p\<rceil> = \<lfloor>p\<rfloor>"
    by (metis Ints_cases ceiling_of_int floor_of_int)
  with True show ?thesis by simp
next
  case False
  assume nn: "0 \<le> p"
  from False have "p \<noteq> of_int \<lfloor>p\<rfloor>"
    by (metis Ints_of_int)
  then have "\<lceil>p\<rceil> = \<lfloor>p\<rfloor> + 1"
    by (simp add: ceiling_altdef)
  moreover from nn have "0 \<le> \<lfloor>p\<rfloor>" by simp
  ultimately show ?thesis using False by simp
qed

lemma Move_stepped:
  assumes "walls \<noteq> []" and "Collider r = Some c"
  shows "Move F r movement ground ceil walls =
         UpdateCollider F
           (horizontalSweep F
              (verticalSweep F (resolveGround F r ground)
                 (scaleMovement F (resolveGround F r ground) movement) walls)
              (scaleMovement F (resolveGround F r ground) movement) walls)"
proof -
  from assms(2) have "Collider (resolveGround F r ground) \<noteq> None"
    by (simp add: resolveGround_Collider_None)
  with assms(1) show ?thesis by (simp add: Move_def Let_def)
qed

lemma horizontalSweep_commits:
  "(flen F (Vec3 (X m) 0 (Z m)) > f32_0_001 \<longrightarrow>
      (\<exists>k. commits F r (Mul32 F (Vec3 (X m) 0 (Z m)) (fdiv F 1 (fofint F 4))) walls 4 k \<and>
           Position (horizontalSweep F r m walls) =
             tentative F (Position r) (Mul32 F (Vec3 (X m) 0 (Z m)) (fdiv F 1 (fofint F 4))) k)) \<and>
   (\<not> flen F (Vec3 (X m) 0 (Z m)) > f32_0_001 \<longrightarrow> horizontalSweep F r m walls = r)"
  using horizontalLoop_commits[of F r "Mul32 F (Vec3 (X m) 0 (Z m)) (fdiv F 1 (fofint F 4))" walls 4]
  by (simp add: horizontalSweep_def Let_def)

lemma horizontalSweep_clear:
  "clearAt F r (Position r) walls \<Longrightarrow>
   clearAt F r (Position (horizontalSweep F r m walls)) walls"
  by (simp add: horizontalSweep_def Let_def horizontalLoop_clear)

lemma verticalSweep_clear:
  "clearAt F r (Position r) walls \<Longrightarrow>
   clearAt F r (Position (verticalSweep F r m walls)) walls"
  by (simp add: verticalSweep_def Let_def verticalLoop_clear)

lemma UpdateCollider_fields:
  "Position (UpdateCollider F r) = Position r" "Grounded (UpdateCollider F r) = Grounded r"
  "Collider (UpdateCollider F r) = Some (colliderAt F r (Position r))"
  "Width (UpdateCollider F r) = Width r" "Height (UpdateCollider F r) = Height r"
  by (simp_all add: UpdateCollider_def)

lemma Move_stays_clear:
  assumes w: "walls \<noteq> []" and c: "Collider r = Some c"
    and cl: "clearAt F r (Position r) walls" and nl: "\<not> lifts F ground c"
  shows "\<exists>c'. Collider (Move F r movement ground ceil walls) = Some c' \<and>
              (\<forall>w \<in> set walls. \<not> fst (Intersection c' w))"
proof -
  let ?r1 = "resolveGround F r ground"
  let ?m = "scaleMovement F ?r1 movement"
  let ?r2 = "verticalSweep F ?r1 ?m walls"
  let ?r3 = "horizontalSweep F ?r2 ?m walls"
  have p1: "Position ?r1 = Position r" using c nl by (rule resolveGround_no_lift)
  have e1: "clearAt F ?r1 = clearAt F r"
    by (rule clearAt_cong) (simp_all add: resolveGround_frame)
  have e2: "clearAt F ?r2 = clearAt F r"
    by (rule clearAt_cong) (simp_all add: resolveGround_frame verticalSweep_frame)
  have e3: "colliderAt F ?r3 = colliderAt F r"
    by (rule colliderAt_cong)
      (simp_all add: resolveGround_frame verticalSweep_frame horizontalSweep_frame)
  from cl p1 e1 have "clearAt F ?r1 (Position ?r1) walls" by simp
  then have "clearAt F ?r1 (Position ?r2) walls" by (rule verticalSweep_clear)
  with e1 e2 have "clearAt F ?r2 (Position ?r2) walls" by simp
  then have "clearAt F ?r2 (Position ?r3) walls" by (rule horizontalSweep_clear)
  with e2 have "clearAt F r (Position ?r3) walls" by simp
  then have "\<forall>w \<in> set walls. \<not> fst (Intersection (colliderAt F ?r3 (Position ?r3)) w)"
    by (simp add: clearAt_def e3)
  moreover have "Collider (Move F r movement ground ceil walls) =
      Some (colliderAt F ?r3 (Position ?r3))"
    by (simp add: Move_stepped[OF w c] UpdateCollider_fields)
  ultimately show ?thesis by blast
qed

section \<open>The primitives without rounding\<close>

lemma exactF32_ops:
  "fadd exactF32 a b = a + b" "fsub exactF32 a b = a - b" "fmul exactF32 a b = a * b"
  "fdiv exactF32 a b = a / b" "flen exactF32 v = Len v" "fofint exactF32 i = real_of_int i"
  "fovf exactF32 = - (2 ^ 63)"
  by (simp_all add: exactF32_def)

lemma Len_axis:
  "Len (Vec3 x 0 0) = \<bar>x\<bar>" "Len (Vec3 0 y 0) = \<bar>y\<bar>" "Len (Vec3 0 0 z) = \<bar>z\<bar>"
  by (simp_all add: Len_def)

lemma sinkBody_sync:
  "Collider sinkBody = Some (colliderAt exactF32 sinkBody (Position sinkBody))"
  "inSync exactF32 sinkBody"
  by (simp_all add: sinkBody_def inSync_def UpdateCollider_def NewRigidBody_def colliderAt_def)

section \<open>The vertical sweep of Move\<close>

text \<open>
  C3 (as amended). With walls supplied, a collider present and a vertical displacement
  \<open>dy\<close> whose \<^verbatim>\<open>float32\<close> length is positive, \<^verbatim>\<open>Move\<close> runs its vertical loop for \<open>n\<close>
  sub-steps of the same \<open>stepMove\<close> each (\<open>dy\<close> times \<open>1 / n\<close>), where \<open>n\<close> is the
  conversion to \<^verbatim>\<open>int\<close> of the \<^verbatim>\<open>float32\<close> product \<open>p\<close> of \<open>\<bar>dy\<bar>\<close> and 5, plus 1. For
  \<open>p\<close> below \<open>2 ^ 63 - 1\<close> that is the floor of \<open>p\<close> plus 1: \<open>max 1 \<lceil>p\<rceil>\<close> when \<open>p\<close> is not
  a whole number and one more than \<open>\<lceil>p\<rceil>\<close> when it is. From \<open>2 ^ 63\<close> on the conversion
  is the implementation's, and a count that is not positive runs no sub-step. The loop
  commits the first \<open>k\<close> sub-steps, whose tentative colliders overlap no wall, and stops
  at the next one if there is one, whose tentative collider overlaps some wall.
\<close>

theorem Move_vertical_sweep:
  assumes "walls \<noteq> []" and "Collider r = Some c"
    and "r1 = resolveGround F r ground" and "m1 = scaleMovement F r1 movement"
    and "dy = Y (verticalMoveOf r1 m1)" and "flen F (Vec3 0 dy 0) > 0"
    and "p = fmul F \<bar>dy\<bar> 5" and "n = verticalSteps F dy"
    and "stepMove = Mul32 F (Vec3 0 dy 0) (fdiv F 1 (fofint F n))"
  shows "Move F r movement ground ceil walls =
           UpdateCollider F
             (horizontalSweep F (verticalLoop F (nat n) stepMove walls r1) m1 walls) \<and>
         (0 \<le> p \<and> p < 2 ^ 63 - 1 \<longrightarrow>
            n = \<lfloor>p\<rfloor> + 1 \<and> n = (if p \<in> \<int> then \<lceil>p\<rceil> + 1 else max 1 \<lceil>p\<rceil>)) \<and>
         (2 ^ 63 \<le> p \<longrightarrow> n = wrap64 (fovf F + 1)) \<and>
         (n \<le> 0 \<longrightarrow> verticalLoop F (nat n) stepMove walls r1 = r1) \<and>
         (\<exists>k. commits F r1 stepMove walls (nat n) k \<and>
              Position (verticalLoop F (nat n) stepMove walls r1) =
                tentative F (Position r1) stepMove k)"
proof -
  from assms(5,6,8,9) have "verticalSweep F r1 m1 walls = verticalLoop F (nat n) stepMove walls r1"
    by (simp add: verticalSweep_unfold)
  with assms(3,4) have a: "Move F r movement ground ceil walls =
      UpdateCollider F
        (horizontalSweep F (verticalLoop F (nat n) stepMove walls r1) m1 walls)"
    by (simp add: Move_stepped[OF assms(1,2)])
  have b: "0 \<le> p \<and> p < 2 ^ 63 - 1 \<longrightarrow>
            n = \<lfloor>p\<rfloor> + 1 \<and> n = (if p \<in> \<int> then \<lceil>p\<rceil> + 1 else max 1 \<lceil>p\<rceil>)"
  proof
    assume h: "0 \<le> p \<and> p < 2 ^ 63 - 1"
    with assms(7,8) have "n = \<lfloor>p\<rfloor> + 1" by (simp add: verticalSteps_floor)
    moreover from h have "\<lfloor>p\<rfloor> + 1 = (if p \<in> \<int> then \<lceil>p\<rceil> + 1 else max 1 \<lceil>p\<rceil>)"
      by (simp only: floor_succ_ceiling)
    ultimately show "n = \<lfloor>p\<rfloor> + 1 \<and> n = (if p \<in> \<int> then \<lceil>p\<rceil> + 1 else max 1 \<lceil>p\<rceil>)"
      by simp
  qed
  have c: "2 ^ 63 \<le> p \<longrightarrow> n = wrap64 (fovf F + 1)"
    using assms(7,8) by (simp add: verticalSteps_overflow)
  have d: "n \<le> 0 \<longrightarrow> verticalLoop F (nat n) stepMove walls r1 = r1" by simp
  from a b c d verticalLoop_commits[of F r1 stepMove walls "nat n"] show ?thesis by blast
qed

lemma fallingBody_enter:
  "resolveGround exactF32 fallingBody None = fallingBody\<lparr>Grounded := False\<rparr>"
  "scaleMovement exactF32 (fallingBody\<lparr>Grounded := False\<rparr>) zeroVec = zeroVec"
  "Y (verticalMoveOf (fallingBody\<lparr>Grounded := False\<rparr>) zeroVec) = - 1"
  "Collider fallingBody = Some (colliderAt exactF32 fallingBody (Vec3 0 3 0))"
  by (simp_all add: resolveGround_def scaleMovement_def verticalMoveOf_def fallingBody_def
      NewRigidBody_def UpdateCollider_def colliderAt_def zeroVec_def Mul32_def exactF32_ops)

lemma verticalSteps_one: "verticalSteps exactF32 (- 1) = 6"
  by (simp add: verticalSteps_def toInt_def wrap64_def exactF32_ops)

theorem Move_vertical_sweep_witness:
  "flen exactF32 (Vec3 0 (- 1) 0) > 0 \<and>
   Move exactF32 fallingBody zeroVec None None [floorWall] =
     UpdateCollider exactF32
       (horizontalSweep exactF32
          (verticalLoop exactF32 6 (Vec3 0 (- 1 / 6) 0) [floorWall]
             (fallingBody\<lparr>Grounded := False\<rparr>))
          zeroVec [floorWall]) \<and>
   (6 :: int) = \<lfloor>5 :: real\<rfloor> + 1 \<and>
   (\<exists>k. commits exactF32 (fallingBody\<lparr>Grounded := False\<rparr>) (Vec3 0 (- 1 / 6) 0)
          [floorWall] 6 k \<and>
        Position (verticalLoop exactF32 6 (Vec3 0 (- 1 / 6) 0) [floorWall]
                    (fallingBody\<lparr>Grounded := False\<rparr>)) =
          tentative exactF32 (Position (fallingBody\<lparr>Grounded := False\<rparr>))
            (Vec3 0 (- 1 / 6) 0) k)"
proof -
  let ?r1 = "fallingBody\<lparr>Grounded := False\<rparr>"
  have h: "[floorWall] \<noteq> []"
    "Collider fallingBody = Some (colliderAt exactF32 fallingBody (Vec3 0 3 0))"
    "?r1 = resolveGround exactF32 fallingBody None"
    "zeroVec = scaleMovement exactF32 ?r1 zeroVec"
    "- 1 = Y (verticalMoveOf ?r1 zeroVec)"
    "flen exactF32 (Vec3 0 (- 1) 0) > 0"
    "5 = fmul exactF32 \<bar>- 1\<bar> 5"
    "6 = verticalSteps exactF32 (- 1)"
    "Vec3 0 (- 1 / 6) 0 = Mul32 exactF32 (Vec3 0 (- 1) 0) (fdiv exactF32 1 (fofint exactF32 6))"
    using fallingBody_enter verticalSteps_one
    by (simp_all add: exactF32_ops Len_axis Mul32_def)
  from Move_vertical_sweep[OF h, of None] h(6) show ?thesis by simp
qed

lemma fallingBody_lands:
  "Position (verticalLoop exactF32 6 (Vec3 0 (- 1 / 6) 0) [floorWall]
               (fallingBody\<lparr>Grounded := False\<rparr>)) = Vec3 0 (7 / 3) 0"
proof -
  have six: "(6 :: nat) = Suc (Suc (Suc (Suc (Suc (Suc 0)))))" by simp
  show ?thesis
    unfolding six
    by (simp add: Let_def Intersection_fst separated_def
        separatedX_def separatedY_def separatedZ_def colliderAt_def floorWall_def
        fallingBody_def NewRigidBody_def UpdateCollider_def UpdateColliderAtPosition_def
        Add32_def Sub32_def exactF32_ops)
qed

text \<open>
  C3 as stated fails for a whole number of fifths: \<open>fallingBody\<close> falls with vertical
  velocity \<open>- 1\<close>, the product with 5 is exactly 5, for which \<open>max 1 \<lceil>\<bar>dy\<bar> * 5\<rceil>\<close> is 5,
  and \<^verbatim>\<open>Move\<close> takes 6 sub-steps of one sixth. Above \<open>floorWall\<close> it commits four of them
  and ends at height \<open>7 / 3\<close>; five sub-steps of one fifth would end at \<open>12 / 5\<close>. It
  also fails where the product rounds up to a whole number (\<^verbatim>\<open>float32(1.4)\<close> times 5 is
  7 in \<^verbatim>\<open>float32\<close>: 8 sub-steps, where \<open>max 1 \<lceil>\<bar>dy\<bar> * 5\<rceil>\<close> is 7) and where the
  conversion to \<^verbatim>\<open>int\<close> overflows (\<open>dy = 2 ^ 61\<close>: the count is negative and no sub-step
  runs).
\<close>

theorem Move_vertical_sweep_counterexample:
  "Y (verticalMoveOf (resolveGround exactF32 fallingBody None)
        (scaleMovement exactF32 (resolveGround exactF32 fallingBody None) zeroVec)) = - 1 \<and>
   fmul exactF32 \<bar>- 1\<bar> 5 = 5 \<and>
   max 1 \<lceil>\<bar>- 1 :: real\<bar> * 5\<rceil> = 5 \<and>
   verticalSteps exactF32 (- 1) = 6 \<and>
   Position (Move exactF32 fallingBody zeroVec None None [floorWall]) = Vec3 0 (7 / 3) 0 \<and>
   Position (verticalLoop exactF32 5 (Vec3 0 (- 1 / 5) 0) [floorWall]
               (resolveGround exactF32 fallingBody None)) = Vec3 0 (12 / 5) 0 \<and>
   verticalSteps productRounding (11744051 / 8388608) = 8 \<and>
   max 1 \<lceil>\<bar>11744051 / 8388608 :: real\<bar> * 5\<rceil> = 7 \<and>
   verticalSteps exactF32 (2 ^ 61) = - (2 ^ 63) + 1 \<and>
   nat (verticalSteps exactF32 (2 ^ 61)) = 0"
proof -
  let ?r1 = "fallingBody\<lparr>Grounded := False\<rparr>"
  have r: "verticalSteps productRounding (11744051 / 8388608) = 8"
    by (simp add: verticalSteps_def toInt_def wrap64_def productRounding_def exactF32_def)
  have "\<lceil>58720255 / 8388608 :: real\<rceil> = 7"
    by (simp add: ceiling_eq_iff)
  then have t: "max 1 \<lceil>\<bar>11744051 / 8388608 :: real\<bar> * 5\<rceil> = 7" by simp
  have "(2 :: real) ^ 63 \<le> fmul exactF32 \<bar>2 ^ 61\<bar> 5" by (simp add: exactF32_ops)
  from verticalSteps_overflow[OF this]
  have o: "verticalSteps exactF32 (2 ^ 61) = - (2 ^ 63) + 1"
    by (simp add: exactF32_ops wrap64_def)
  have five: "(5 :: nat) = Suc (Suc (Suc (Suc (Suc 0))))" by simp
  have a: "Position (verticalLoop exactF32 5 (Vec3 0 (- 1 / 5) 0) [floorWall] ?r1) =
      Vec3 0 (12 / 5) 0"
    unfolding five
    by (simp add: Let_def Intersection_fst separated_def
        separatedX_def separatedY_def separatedZ_def colliderAt_def floorWall_def
        fallingBody_def NewRigidBody_def UpdateCollider_def UpdateColliderAtPosition_def
        Add32_def Sub32_def exactF32_ops)
  have c: "Collider fallingBody = Some (colliderAt exactF32 fallingBody (Vec3 0 3 0))"
    by (rule fallingBody_enter(4))
  have w: "[floorWall] \<noteq> []" by simp
  have l: "flen exactF32 (Vec3 0 (Y (verticalMoveOf ?r1 zeroVec)) 0) > 0"
    by (simp add: fallingBody_enter(3) exactF32_ops Len_axis)
  have vs: "verticalSweep exactF32 ?r1 zeroVec [floorWall] =
      verticalLoop exactF32 6 (Vec3 0 (- 1 / 6) 0) [floorWall] ?r1"
    unfolding verticalSweep_unfold[OF l]
    by (simp add: fallingBody_enter(3) verticalSteps_one Mul32_def exactF32_ops)
  have hs: "horizontalSweep exactF32 r zeroVec [floorWall] = r" for r
    by (simp add: horizontalSweep_def Let_def zeroVec_def exactF32_ops Len_axis f32_0_001_def)
  have b: "Position (Move exactF32 fallingBody zeroVec None None [floorWall]) = Vec3 0 (7 / 3) 0"
    using fallingBody_lands
    by (simp add: Move_stepped[OF w c] fallingBody_enter(1,2) vs hs UpdateCollider_fields)
  from a b r t o fallingBody_enter(1,2,3) verticalSteps_one show ?thesis
    by (simp add: exactF32_ops)
qed

section \<open>The horizontal sweep of Move\<close>

text \<open>
  C4 (as amended). With walls supplied and a collider present, the horizontal part of
  the scaled movement is swept only if its \<^verbatim>\<open>float32\<close> length exceeds \<^verbatim>\<open>float32(0.001)\<close>,
  and then in exactly 4 sub-steps of the same \<open>stepMove\<close> each (the horizontal part times
  \<open>1 / 4\<close>): the sweep commits the first \<open>k\<close> of them, whose tentative colliders overlap
  no wall, and stops for good at the next one if there is one, whose tentative collider
  overlaps some wall. A horizontal movement that is not longer than that leaves the
  position where the vertical sweep left it. A body whose collider is the one derived
  from its position and overlaps no wall, and which the ground block does not lift, ends
  the call with a collider that overlaps no wall.
\<close>

theorem Move_horizontal_sweep:
  assumes "walls \<noteq> []" and "Collider r = Some c"
    and "r1 = resolveGround F r ground" and "m1 = scaleMovement F r1 movement"
    and "r2 = verticalSweep F r1 m1 walls"
    and "stepMove = Mul32 F (Vec3 (X m1) 0 (Z m1)) (fdiv F 1 (fofint F 4))"
  shows "(flen F (Vec3 (X m1) 0 (Z m1)) > f32_0_001 \<longrightarrow>
            (\<exists>k. commits F r2 stepMove walls 4 k \<and>
                 Position (Move F r movement ground ceil walls) =
                   tentative F (Position r2) stepMove k)) \<and>
         (\<not> flen F (Vec3 (X m1) 0 (Z m1)) > f32_0_001 \<longrightarrow>
            Position (Move F r movement ground ceil walls) = Position r2) \<and>
         (inSync F r \<and> clearAt F r (Position r) walls \<and> \<not> lifts F ground c \<longrightarrow>
            (\<exists>c'. Collider (Move F r movement ground ceil walls) = Some c' \<and>
                  (\<forall>w \<in> set walls. \<not> fst (Intersection c' w))))"
proof -
  from assms(3,4,5) have mv: "Position (Move F r movement ground ceil walls) =
      Position (horizontalSweep F r2 m1 walls)"
    by (simp add: Move_stepped[OF assms(1,2)] UpdateCollider_fields)
  from horizontalSweep_commits[of F m1 r2 walls] mv assms(6)
  have a: "flen F (Vec3 (X m1) 0 (Z m1)) > f32_0_001 \<longrightarrow>
            (\<exists>k. commits F r2 stepMove walls 4 k \<and>
                 Position (Move F r movement ground ceil walls) =
                   tentative F (Position r2) stepMove k)"
    and b: "\<not> flen F (Vec3 (X m1) 0 (Z m1)) > f32_0_001 \<longrightarrow>
            Position (Move F r movement ground ceil walls) = Position r2"
    by simp_all
  from Move_stays_clear[OF assms(1,2)]
  have "inSync F r \<and> clearAt F r (Position r) walls \<and> \<not> lifts F ground c \<longrightarrow>
            (\<exists>c'. Collider (Move F r movement ground ceil walls) = Some c' \<and>
                  (\<forall>w \<in> set walls. \<not> fst (Intersection c' w)))"
    by blast
  with a b show ?thesis by blast
qed

lemma corridorBody_enter:
  "resolveGround exactF32 corridorBody (Some lowGround) =
     corridorBody\<lparr>Velocity := Vec3 0 0 0, Grounded := True\<rparr>"
  "Collider corridorBody = Some (colliderAt exactF32 corridorBody (Position corridorBody))"
  "inSync exactF32 corridorBody"
  "\<not> lifts exactF32 (Some lowGround) (colliderAt exactF32 corridorBody (Position corridorBody))"
  "clearAt exactF32 corridorBody (Position corridorBody) [leftWall, rightWall]"
  by (simp_all add: resolveGround_def corridorBody_def lowGround_def leftWall_def rightWall_def
      UpdateCollider_def NewRigidBody_def colliderAt_def IntersectionY_def Let_def inSync_def
      lifts_def clearAt_def Intersection_fst separated_def separatedX_def separatedY_def
      separatedZ_def Add32_def Sub32_def zeroVec_def exactF32_ops)

lemma corridor_scale:
  "scaleMovement exactF32 (corridorBody\<lparr>Velocity := Vec3 0 0 0, Grounded := True\<rparr>) m = m"
  by (simp add: scaleMovement_def Let_def corridorBody_def UpdateCollider_def NewRigidBody_def)

lemma corridor_vertical:
  "verticalSweep exactF32 (corridorBody\<lparr>Velocity := Vec3 0 0 0, Grounded := True\<rparr>) m walls =
     corridorBody\<lparr>Velocity := Vec3 0 0 0, Grounded := True\<rparr>"
  by (simp add: verticalSweep_def Let_def verticalMoveOf_def corridorBody_def
      UpdateCollider_def NewRigidBody_def exactF32_ops Len_axis)

lemma corridor_half:
  "Position (Move exactF32 corridorBody (Vec3 (1 / 2) 0 0) (Some lowGround) None
               [leftWall, rightWall]) = Vec3 (1 / 8) 2 0"
proof -
  have four: "(4 :: nat) = Suc (Suc (Suc (Suc 0)))" by simp
  have w: "[leftWall, rightWall] \<noteq> []" by simp
  have "Position (horizontalLoop exactF32 4 (Vec3 (1 / 8) 0 0) [leftWall, rightWall]
          (corridorBody\<lparr>Velocity := Vec3 0 0 0, Grounded := True\<rparr>)) = Vec3 (1 / 8) 2 0"
    unfolding four
    by (simp add: Let_def Intersection_fst separated_def
        separatedX_def separatedY_def separatedZ_def colliderAt_def leftWall_def rightWall_def
        corridorBody_def NewRigidBody_def UpdateCollider_def UpdateColliderAtPosition_def
        Add32_def Sub32_def exactF32_ops)
  then show ?thesis
    by (simp add: Move_stepped[OF w corridorBody_enter(2)] corridorBody_enter(1) corridor_scale
        corridor_vertical horizontalSweep_def Let_def Len_axis Mul32_def UpdateCollider_fields
        exactF32_ops f32_0_001_def)
qed

theorem Move_horizontal_sweep_witness:
  "flen exactF32 (Vec3 (1 / 2) 0 0) > f32_0_001 \<and> inSync exactF32 corridorBody \<and>
   clearAt exactF32 corridorBody (Position corridorBody) [leftWall, rightWall] \<and>
   \<not> lifts exactF32 (Some lowGround)
       (colliderAt exactF32 corridorBody (Position corridorBody)) \<and>
   Position (Move exactF32 corridorBody (Vec3 (1 / 2) 0 0) (Some lowGround) None
               [leftWall, rightWall]) = Vec3 (1 / 8) 2 0 \<and>
   (\<exists>k. commits exactF32 (corridorBody\<lparr>Velocity := Vec3 0 0 0, Grounded := True\<rparr>)
          (Vec3 (1 / 8) 0 0) [leftWall, rightWall] 4 k \<and>
        Position (Move exactF32 corridorBody (Vec3 (1 / 2) 0 0) (Some lowGround) None
                    [leftWall, rightWall]) =
          tentative exactF32
            (Position (corridorBody\<lparr>Velocity := Vec3 0 0 0, Grounded := True\<rparr>))
            (Vec3 (1 / 8) 0 0) k) \<and>
   (\<exists>c'. Collider (Move exactF32 corridorBody (Vec3 (1 / 2) 0 0) (Some lowGround) None
                     [leftWall, rightWall]) = Some c' \<and>
         (\<forall>w \<in> set [leftWall, rightWall]. \<not> fst (Intersection c' w)))"
proof -
  let ?r1 = "corridorBody\<lparr>Velocity := Vec3 0 0 0, Grounded := True\<rparr>"
  have h: "[leftWall, rightWall] \<noteq> []"
    "Collider corridorBody = Some (colliderAt exactF32 corridorBody (Position corridorBody))"
    "?r1 = resolveGround exactF32 corridorBody (Some lowGround)"
    "Vec3 (1 / 2) 0 0 = scaleMovement exactF32 ?r1 (Vec3 (1 / 2) 0 0)"
    "?r1 = verticalSweep exactF32 ?r1 (Vec3 (1 / 2) 0 0) [leftWall, rightWall]"
    "Vec3 (1 / 8) 0 0 = Mul32 exactF32 (Vec3 (X (Vec3 (1 / 2) 0 0)) 0 (Z (Vec3 (1 / 2) 0 0)))
                          (fdiv exactF32 1 (fofint exactF32 4))"
    using corridorBody_enter(1,2) corridor_scale corridor_vertical
    by (simp_all add: Mul32_def exactF32_ops)
  have l: "flen exactF32 (Vec3 (1 / 2) 0 0) > f32_0_001"
    by (simp add: Len_axis exactF32_ops f32_0_001_def)
  from Move_horizontal_sweep[OF h, of None] l corridorBody_enter(3,4,5) corridor_half
  show ?thesis by simp
qed

text \<open>
  C4 as stated fails at two inputs. The collider of \<open>sinkBody\<close> overlaps no wall at the
  start; the ground block lifts it by a little over 0.7 into \<open>lintel\<close>, and the call ends
  with the collider overlapping that wall. And a horizontal movement of length
  \<open>1 / 1024\<close> in the free corridor is not divided into sub-steps at all: the position
  does not change. Nor does it for a movement of length \<^verbatim>\<open>float32(0.001)\<close>, which is
  greater than 0.001: the test is strict.
\<close>

theorem Move_horizontal_sweep_counterexample:
  "inSync exactF32 sinkBody \<and> clearAt exactF32 sinkBody (Position sinkBody) [lintel] \<and>
   (\<exists>c'. Collider (Move exactF32 sinkBody zeroVec (Some highGround) None [lintel]) = Some c' \<and>
         fst (Intersection c' lintel)) \<and>
   0 < flen exactF32 (Vec3 (1 / 1024) 0 0) \<and>
   clearAt exactF32 corridorBody (Add32 exactF32 (Position corridorBody) (Vec3 (1 / 1024) 0 0))
     [leftWall, rightWall] \<and>
   Position (Move exactF32 corridorBody (Vec3 (1 / 1024) 0 0) (Some lowGround) None
               [leftWall, rightWall]) = Position corridorBody \<and>
   0.001 < flen exactF32 (Vec3 f32_0_001 0 0) \<and>
   Position (Move exactF32 corridorBody (Vec3 f32_0_001 0 0) (Some lowGround) None
               [leftWall, rightWall]) = Position corridorBody"
proof -
  let ?y = "5 / 2 + f32_0_2"
  have w: "[lintel] \<noteq> []" "[leftWall, rightWall] \<noteq> []" by simp_all
  have a: "clearAt exactF32 sinkBody (Position sinkBody) [lintel]"
    by (simp add: clearAt_def Intersection_fst separated_def separatedX_def separatedY_def
        separatedZ_def sinkBody_def lintel_def UpdateCollider_def NewRigidBody_def
        colliderAt_def Add32_def Sub32_def exactF32_ops)
  have r1: "resolveGround exactF32 sinkBody (Some highGround) =
      UpdateCollider exactF32 (sinkBody\<lparr>Velocity := Vec3 0 0 0, Grounded := True,
                               Position := Vec3 0 ?y 0\<rparr>)"
    by (simp add: resolveGround_def sinkBody_def highGround_def UpdateCollider_def
        NewRigidBody_def colliderAt_def IntersectionY_def minf_def Let_def Add32_def Sub32_def
        zeroVec_def exactF32_ops f32_0_001_def f32_0_2_def)
  have b: "Collider (Move exactF32 sinkBody zeroVec (Some highGround) None [lintel]) =
     Some \<lparr>Min_box = Vec3 (- (1 / 2)) (?y - 2) (- (1 / 2)),
           Max_box = Vec3 (1 / 2) ?y (1 / 2)\<rparr>"
    unfolding Move_stepped[OF w(1) sinkBody_sync(1)] r1
    by (simp add: scaleMovement_def
        verticalSweep_def verticalMoveOf_def horizontalSweep_def Let_def Len_def zeroVec_def
        UpdateCollider_def colliderAt_def sinkBody_def NewRigidBody_def Add32_def Sub32_def
        Mul32_def exactF32_ops f32_0_001_def)
  have c: "fst (Intersection \<lparr>Min_box = Vec3 (- (1 / 2)) (?y - 2) (- (1 / 2)),
                      Max_box = Vec3 (1 / 2) ?y (1 / 2)\<rparr> lintel)"
    by (simp add: Intersection_fst separated_def separatedX_def separatedY_def
        separatedZ_def lintel_def f32_0_2_def)
  have d: "clearAt exactF32 corridorBody
      (Add32 exactF32 (Position corridorBody) (Vec3 (1 / 1024) 0 0)) [leftWall, rightWall]"
    by (simp add: clearAt_def Intersection_fst separated_def separatedX_def separatedY_def
        separatedZ_def corridorBody_def leftWall_def rightWall_def UpdateCollider_def
        NewRigidBody_def colliderAt_def Add32_def Sub32_def exactF32_ops)
  have e: "Position (Move exactF32 corridorBody (Vec3 (1 / 1024) 0 0) (Some lowGround) None
               [leftWall, rightWall]) = Position corridorBody"
    by (simp add: Move_stepped[OF w(2) corridorBody_enter(2)] corridorBody_enter(1)
        corridor_scale corridor_vertical horizontalSweep_def Let_def Len_axis
        UpdateCollider_fields exactF32_ops f32_0_001_def)
  have f: "Position (Move exactF32 corridorBody (Vec3 f32_0_001 0 0) (Some lowGround) None
               [leftWall, rightWall]) = Position corridorBody"
    by (simp add: Move_stepped[OF w(2) corridorBody_enter(2)] corridorBody_enter(1)
        corridor_scale corridor_vertical horizontalSweep_def Let_def Len_axis
        UpdateCollider_fields exactF32_ops f32_0_001_def)
  have g: "0.001 < flen exactF32 (Vec3 f32_0_001 0 0)"
    by (simp add: Len_axis exactF32_ops f32_0_001_def)
  from a b c d e f g sinkBody_sync(2) show ?thesis by (simp add: Len_axis exactF32_ops)
qed

section \<open>The movement vector of the controller\<close>





















section \<open>The ground block of Move\<close>






















end
